theory Spec2Isabelle
  imports Complex_Main
begin

section \<open>Numbers\<close>

text \<open>
  The bot computes on Python and numpy floats. Prices, volumes, indicator values and
  durations are modelled as exact rationals; the comparisons of the source are kept as
  they are written. Where the source relies on the special float values (a division by
  zero in a pandas series, \<open>np.inf\<close> as "no level", NaN as "not available") the model
  writes them out as constructors or as \<open>None\<close>.
\<close>

section \<open>Configuration (class attributes of \<open>GoldScalperBot\<close>)\<close>

text \<open>
  The attributes that \<open>load_config_from_file\<close> can overwrite are the fields of the
  record; the others are constants of the class.
\<close>

record config =
  MAX_SPREAD_POINTS :: rat
  RSI_OVERSOLD :: rat
  RSI_OVERBOUGHT :: rat
  RISK_PERCENT_PER_TRADE :: rat
  SL_POINTS :: rat
  TP_POINTS :: rat
  MAX_HOLD_TIME_SECONDS :: rat
  NUM_CONCURRENT_TRADES :: rat
  BREAK_EVEN_PROFIT_POINTS :: rat
  ATR_MULTIPLIER :: rat
  COOLDOWN_AFTER_TRADE_SECONDS :: rat

definition default_config :: config where
  "default_config =
     \<lparr> MAX_SPREAD_POINTS = 35, RSI_OVERSOLD = 35, RSI_OVERBOUGHT = 65,
       RISK_PERCENT_PER_TRADE = 3 / 100, SL_POINTS = 150, TP_POINTS = 500,
       MAX_HOLD_TIME_SECONDS = 120, NUM_CONCURRENT_TRADES = 50,
       BREAK_EVEN_PROFIT_POINTS = 75, ATR_MULTIPLIER = 1,
       COOLDOWN_AFTER_TRADE_SECONDS = 60 \<rparr>"

definition RSI_PERIOD :: nat where "RSI_PERIOD = 14"
definition K_PERIOD :: nat where "K_PERIOD = 14"
definition D_PERIOD :: nat where "D_PERIOD = 3"
definition ATR_PERIOD :: nat where "ATR_PERIOD = 14"
definition SR_LOOKBACK_BARS :: nat where "SR_LOOKBACK_BARS = 30"
definition MA_SLOPE_LOOKBACK_BARS :: nat where "MA_SLOPE_LOOKBACK_BARS = 2"
definition TICK_BAR_INTERVAL_SECONDS :: int where "TICK_BAR_INTERVAL_SECONDS = 5"
definition STOCHASTIC_OVERBOUGHT :: rat where "STOCHASTIC_OVERBOUGHT = 75"
definition STOCHASTIC_OVERSOLD :: rat where "STOCHASTIC_OVERSOLD = 25"
definition AGGRESSIVE_SL_PERCENT_TRIGGER :: rat where "AGGRESSIVE_SL_PERCENT_TRIGGER = 20 / 100"
definition AGGRESSIVE_SL_FIXED_BUFFER_FOR_TRIGGER :: rat where
  "AGGRESSIVE_SL_FIXED_BUFFER_FOR_TRIGGER = 5"
definition AGGRESSIVE_SL_MIN_DISTANCE_FROM_CURRENT :: rat where
  "AGGRESSIVE_SL_MIN_DISTANCE_FROM_CURRENT = 5"
definition SR_BREACH_BUFFER_POINTS :: rat where "SR_BREACH_BUFFER_POINTS = 3"
definition MAX_ADVERSE_EXCURSION_CLOSE_POINTS :: rat where
  "MAX_ADVERSE_EXCURSION_CLOSE_POINTS = 200"
definition TRADE_ENTRY_COOLDOWN_SECONDS :: rat where "TRADE_ENTRY_COOLDOWN_SECONDS = 10"
definition DYNAMIC_TP_ATR_MULTIPLIER :: rat where "DYNAMIC_TP_ATR_MULTIPLIER = 2"
definition MIN_DYNAMIC_TP_POINTS :: rat where "MIN_DYNAMIC_TP_POINTS = 50"
definition MAX_DYNAMIC_TP_POINTS :: rat where "MAX_DYNAMIC_TP_POINTS = 1000"
definition PARTIAL_PROFIT_TRIGGER_POINTS :: rat where "PARTIAL_PROFIT_TRIGGER_POINTS = 150"
definition PARTIAL_PROFIT_PERCENTAGE :: rat where "PARTIAL_PROFIT_PERCENTAGE = 50 / 100"
definition REVERSAL_CONFIRMATION_BARS :: int where "REVERSAL_CONFIRMATION_BARS = 1"
definition BREAK_EVEN_BUFFER_POINTS :: rat where "BREAK_EVEN_BUFFER_POINTS = 22"

subsection \<open>\<open>load_config_from_file\<close>\<close>

text \<open>
  The JSON object of \<open>goldtick5_config.json\<close> is a map from key to number; \<open>None\<close> is a
  missing or unreadable file. \<open>config.get(key, default)\<close> is \<open>get_or\<close>. The function
  returns the updated attributes and the boolean the source returns.
\<close>

definition get_or :: "(string \<rightharpoonup> rat) \<Rightarrow> string \<Rightarrow> rat \<Rightarrow> rat" where
  "get_or m k d = (case m k of None \<Rightarrow> d | Some v \<Rightarrow> v)"

definition load_config_from_file :: "(string \<rightharpoonup> rat) option \<Rightarrow> config \<Rightarrow> config \<times> bool" where
  "load_config_from_file file c =
     (case file of
        None \<Rightarrow> (c, False)
      | Some cfg \<Rightarrow>
          (\<lparr> MAX_SPREAD_POINTS = get_or cfg ''MAX_SPREAD_POINTS'' (MAX_SPREAD_POINTS c),
             RSI_OVERSOLD = get_or cfg ''RSI_OVERSOLD'' (RSI_OVERSOLD c),
             RSI_OVERBOUGHT = get_or cfg ''RSI_OVERBOUGHT'' (RSI_OVERBOUGHT c),
             RISK_PERCENT_PER_TRADE =
               get_or cfg ''RISK_PERCENT_PER_TRADE'' (RISK_PERCENT_PER_TRADE c),
             SL_POINTS = get_or cfg ''SL_POINTS'' (SL_POINTS c),
             TP_POINTS = get_or cfg ''TP_POINTS'' (TP_POINTS c),
             MAX_HOLD_TIME_SECONDS =
               get_or cfg ''MAX_HOLD_TIME_SECONDS'' (MAX_HOLD_TIME_SECONDS c),
             NUM_CONCURRENT_TRADES =
               get_or cfg ''NUM_CONCURRENT_TRADES'' (NUM_CONCURRENT_TRADES c),
             BREAK_EVEN_PROFIT_POINTS =
               get_or cfg ''BREAK_EVEN_PROFIT_POINTS'' (BREAK_EVEN_PROFIT_POINTS c),
             ATR_MULTIPLIER = get_or cfg ''ATR_MULTIPLIER'' (ATR_MULTIPLIER c),
             COOLDOWN_AFTER_TRADE_SECONDS =
               get_or cfg ''COOLDOWN_AFTER_TRADE_SECONDS'' (COOLDOWN_AFTER_TRADE_SECONDS c) \<rparr>,
           True))"

text \<open>
  The sibling loader, \<open>load_configuration\<close> of \<open>ULTRA_bot.py\<close>, reads the same kind of
  file "with safety caps": of its attributes only the three capped ones and the spread
  limit are read.
\<close>

record ultra_config =
  U_RISK_PERCENT_PER_TRADE :: rat
  U_MAX_SPREAD_POINTS :: rat
  U_RSI_OVERSOLD :: rat
  U_RSI_OVERBOUGHT :: rat

definition load_configuration :: "(string \<rightharpoonup> rat) option \<Rightarrow> ultra_config \<Rightarrow> ultra_config" where
  "load_configuration file c =
     (case file of
        None \<Rightarrow> c
      | Some cfg \<Rightarrow>
          \<lparr> U_RISK_PERCENT_PER_TRADE =
              (case cfg ''RISK_PERCENT_PER_TRADE'' of
                 None \<Rightarrow> U_RISK_PERCENT_PER_TRADE c | Some v \<Rightarrow> min v (15 / 1000)),
            U_MAX_SPREAD_POINTS =
              (case cfg ''MAX_SPREAD_POINTS'' of
                 None \<Rightarrow> U_MAX_SPREAD_POINTS c | Some v \<Rightarrow> v),
            U_RSI_OVERSOLD =
              (case cfg ''RSI_OVERSOLD'' of None \<Rightarrow> U_RSI_OVERSOLD c | Some v \<Rightarrow> max v 25),
            U_RSI_OVERBOUGHT =
              (case cfg ''RSI_OVERBOUGHT'' of
                 None \<Rightarrow> U_RSI_OVERBOUGHT c | Some v \<Rightarrow> min v 75) \<rparr>)"

section \<open>Venue data\<close>

datatype side = BUY | SELL

datatype error = ZeroDivisionError | KeyError | TypeError | ValueError

text \<open>
  \<open>symbol_info\<close> holds the fields of \<open>mt5.symbol_info\<close> that the bot reads; \<open>point\<close> is
  what the bot stores as \<open>self.point_value\<close> and \<open>trade_stops_level\<close> what it stores as
  \<open>self.trade_stop_level_points\<close>. A position is a row of \<open>mt5.positions_get\<close>; its stop
  is optional because \<open>manage_positions\<close> tests it against \<open>None\<close>.
\<close>

record symbol_info =
  volume_min :: rat
  volume_max :: rat
  volume_step :: rat
  point :: rat
  trade_stops_level :: rat
  trade_contract_size :: rat

record position =
  ticket :: nat
  price_open :: rat
  sl :: "rat option"
  tp :: rat
  ptype :: side
  volume :: rat

record tick_info =
  bid :: rat
  ask :: rat

text \<open>What \<open>manage_positions\<close> reads of \<open>self.tracked_positions[ticket]\<close>.\<close>

record tracked =
  open_time :: "rat option"
  partial_profit_taken :: bool

text \<open>
  The requests that \<open>manage_positions\<close> hands to \<open>close_position\<close> (ticket, volume or
  \<open>None\<close> for the full position, reason) and to \<open>modify_position_sl_tp\<close> (ticket, new
  stop, new target), in the order of the calls.
\<close>

datatype action =
  ClosePosition nat "rat option" string
| ModifySlTp nat rat rat

section \<open>\<open>manage_positions\<close>\<close>

text \<open>
  The values that \<open>manage_positions\<close> derives from \<open>self.all_custom_bars\<close> before its
  loop: the latest ATR (\<open>None\<close> when missing or NaN), the high and the low of the
  support/resistance window (\<open>None\<close> for the initial \<open>-np.inf\<close> and \<open>np.inf\<close>), and the
  close of the latest bar (\<open>None\<close> when there is no bar).
\<close>

record bar_context =
  current_atr :: "rat option"
  previous_high_in_period :: "rat option"
  previous_low_in_period :: "rat option"
  current_bar_close :: "rat option"

definition profit_points :: "symbol_info \<Rightarrow> tick_info \<Rightarrow> position \<Rightarrow> rat" where
  "profit_points si t pos =
     (case ptype pos of
        BUY \<Rightarrow> (bid t - price_open pos) / point si
      | SELL \<Rightarrow> (price_open pos - ask t) / point si)"

definition current_adverse_excursion_points :: "symbol_info \<Rightarrow> tick_info \<Rightarrow> position \<Rightarrow> rat" where
  "current_adverse_excursion_points si t pos =
     (case ptype pos of
        BUY \<Rightarrow> (price_open pos - bid t) / point si
      | SELL \<Rightarrow> (ask t - price_open pos) / point si)"

definition break_even_level :: "symbol_info \<Rightarrow> position \<Rightarrow> rat" where
  "break_even_level si pos =
     (case ptype pos of
        BUY \<Rightarrow> price_open pos + BREAK_EVEN_BUFFER_POINTS * point si
      | SELL \<Rightarrow> price_open pos - BREAK_EVEN_BUFFER_POINTS * point si)"

text \<open>
  \<open>better pos new old\<close>: the comparison the break-even, partial-profit and trailing rules
  make before they move a stop, \<open>new > old\<close> for a long and \<open>new < old\<close> for a short.
\<close>

definition better :: "position \<Rightarrow> rat \<Rightarrow> rat \<Rightarrow> bool" where
  "better pos new old = (case ptype pos of BUY \<Rightarrow> new > old | SELL \<Rightarrow> new < old)"

text \<open>
  Partial profit taking (lines 719 to 746). \<open>close_ok\<close> says whether the partial close
  was acknowledged by the venue (\<open>retcode == TRADE_RETCODE_DONE\<close>); \<open>trk\<close> is the
  tracker entry of the ticket. The result is the requests made, the new value of the
  \<open>partial_profit_taken\<close> flag and the exception raised, if any: \<open>//\<close> by a zero step,
  and the assignment to a tracker entry that is missing or that \<open>close_position\<close> has
  just deleted (it deletes the entry when at most half the minimum volume remains).
\<close>

definition volume_to_close :: "symbol_info \<Rightarrow> position \<Rightarrow> rat" where
  "volume_to_close si pos =
     max (of_int \<lfloor>volume pos * PARTIAL_PROFIT_PERCENTAGE / volume_step si\<rfloor> * volume_step si)
         (volume_min si)"

definition partial_profit_taking ::
  "symbol_info \<Rightarrow> bool \<Rightarrow> tracked option \<Rightarrow> position \<Rightarrow> rat \<Rightarrow> rat
     \<Rightarrow> action list \<times> bool \<times> error option" where
  "partial_profit_taking si close_ok trk pos current_sl pp =
     (let taken = (case trk of None \<Rightarrow> False | Some i \<Rightarrow> partial_profit_taken i) in
      if \<not> taken \<and> pp \<ge> PARTIAL_PROFIT_TRIGGER_POINTS \<and> volume pos > volume_min si then
        if volume_step si = 0 then ([], taken, Some ZeroDivisionError)
        else
          let v = volume_to_close si pos; remaining = volume pos - v in
          if remaining \<ge> volume_min si
             \<or> (remaining < volume_min si \<and> remaining < volume_step si / 2)
          then
            let close = ClosePosition (ticket pos) (Some v) ''PARTIAL PROFIT'' in
            if close_ok then
              if trk = None \<or> remaining \<le> volume_min si / 2 then ([close], taken, Some KeyError)
              else
                ([close] @
                 (if better pos (break_even_level si pos) current_sl
                  then [ModifySlTp (ticket pos) (break_even_level si pos) (tp pos)] else []),
                 True, None)
            else ([close], taken, None)
          else ([], taken, None)
      else ([], taken, None))"

text \<open>
  The aggressive loss limiter (lines 760 to 817), entered when the position is in loss
  and the adverse excursion has reached the dynamic trigger. The debug message of the
  branch without momentum formats \<open>'N/A'\<close> with \<open>.5f\<close> when there is no bar, which raises.
\<close>

definition dynamic_aggressive_trigger_points :: "config \<Rightarrow> rat" where
  "dynamic_aggressive_trigger_points cfg =
     SL_POINTS cfg * AGGRESSIVE_SL_PERCENT_TRIGGER + AGGRESSIVE_SL_FIXED_BUFFER_FOR_TRIGGER"

definition aggressive_trigger_price_level :: "config \<Rightarrow> symbol_info \<Rightarrow> position \<Rightarrow> rat" where
  "aggressive_trigger_price_level cfg si pos =
     (case ptype pos of
        BUY \<Rightarrow> price_open pos - dynamic_aggressive_trigger_points cfg * point si
      | SELL \<Rightarrow> price_open pos + dynamic_aggressive_trigger_points cfg * point si)"

definition momentum_confirmed :: "config \<Rightarrow> symbol_info \<Rightarrow> bar_context \<Rightarrow> position \<Rightarrow> bool" where
  "momentum_confirmed cfg si ctx pos =
     (case current_bar_close ctx of
        None \<Rightarrow> False
      | Some c \<Rightarrow>
          (case ptype pos of
             BUY \<Rightarrow> c < aggressive_trigger_price_level cfg si pos
           | SELL \<Rightarrow> c > aggressive_trigger_price_level cfg si pos))"

definition new_aggressive_sl_candidate :: "symbol_info \<Rightarrow> bar_context \<Rightarrow> tick_info \<Rightarrow> position \<Rightarrow> rat" where
  "new_aggressive_sl_candidate si ctx t pos =
     (let actual_aggressive_buffer_points =
            max AGGRESSIVE_SL_MIN_DISTANCE_FROM_CURRENT (trade_stops_level si + 5)
      in case ptype pos of
           BUY \<Rightarrow>
             (let sl_from_current_price = bid t - actual_aggressive_buffer_points * point si in
              case previous_low_in_period ctx of
                None \<Rightarrow> sl_from_current_price
              | Some lo \<Rightarrow>
                  if bid t < lo
                  then max sl_from_current_price (lo - SR_BREACH_BUFFER_POINTS * point si)
                  else sl_from_current_price)
         | SELL \<Rightarrow>
             (let sl_from_current_price = ask t + actual_aggressive_buffer_points * point si in
              case previous_high_in_period ctx of
                None \<Rightarrow> sl_from_current_price
              | Some hi \<Rightarrow>
                  if ask t > hi
                  then min sl_from_current_price (hi + SR_BREACH_BUFFER_POINTS * point si)
                  else sl_from_current_price))"

definition aggressive_loss_limiter ::
  "config \<Rightarrow> symbol_info \<Rightarrow> bar_context \<Rightarrow> tick_info \<Rightarrow> position \<Rightarrow> rat
     \<Rightarrow> action list \<times> error option" where
  "aggressive_loss_limiter cfg si ctx t pos current_sl =
     (if momentum_confirmed cfg si ctx pos then
        (let cand = new_aggressive_sl_candidate si ctx t pos in
         if (case ptype pos of BUY \<Rightarrow> cand < current_sl | SELL \<Rightarrow> cand > current_sl)
         then ([ModifySlTp (ticket pos) cand (tp pos)], None)
         else ([], None))
      else if current_bar_close ctx = None then ([], Some ValueError)
      else ([], None))"

text \<open>Break-even (lines 818 to 834) and the ATR trailing stop (lines 837 to 857).\<close>

definition break_even :: "symbol_info \<Rightarrow> position \<Rightarrow> rat \<Rightarrow> action list" where
  "break_even si pos current_sl =
     (if better pos (break_even_level si pos) current_sl
      then [ModifySlTp (ticket pos) (break_even_level si pos) (tp pos)] else [])"

definition new_ts_sl :: "config \<Rightarrow> symbol_info \<Rightarrow> tick_info \<Rightarrow> position \<Rightarrow> rat \<Rightarrow> rat" where
  "new_ts_sl cfg si t pos atr =
     (let atr_trailing_distance_points = atr * ATR_MULTIPLIER cfg in
      case ptype pos of
        BUY \<Rightarrow> bid t - atr_trailing_distance_points * point si
      | SELL \<Rightarrow> ask t + atr_trailing_distance_points * point si)"

definition atr_trailing_stop ::
  "config \<Rightarrow> symbol_info \<Rightarrow> bar_context \<Rightarrow> tick_info \<Rightarrow> position \<Rightarrow> rat \<Rightarrow> rat \<Rightarrow> action list" where
  "atr_trailing_stop cfg si ctx t pos current_sl pp =
     (case current_atr ctx of
        None \<Rightarrow> []
      | Some atr \<Rightarrow>
          if pp > BREAK_EVEN_PROFIT_POINTS cfg then
            (if better pos (new_ts_sl cfg si t pos atr) current_sl
                \<and> better pos (new_ts_sl cfg si t pos atr) (break_even_level si pos)
             then [ModifySlTp (ticket pos) (new_ts_sl cfg si t pos atr) (tp pos)] else [])
          else [])"

definition stop_rules ::
  "config \<Rightarrow> symbol_info \<Rightarrow> bar_context \<Rightarrow> tick_info \<Rightarrow> position \<Rightarrow> rat
     \<Rightarrow> action list \<times> error option" where
  "stop_rules cfg si ctx t pos current_sl =
     (let pp = profit_points si t pos;
          (acts, err) =
            (if pp < 0 \<and> current_adverse_excursion_points si t pos
                            \<ge> dynamic_aggressive_trigger_points cfg
             then aggressive_loss_limiter cfg si ctx t pos current_sl
             else if pp \<ge> BREAK_EVEN_PROFIT_POINTS cfg then (break_even si pos current_sl, None)
             else ([], None))
      in if err \<noteq> None then (acts, err)
         else (acts @ atr_trailing_stop cfg si ctx t pos current_sl pp, None))"

text \<open>
  One turn of the loop of \<open>manage_positions\<close> (lines 675 to 857) for one position:
  \<open>now\<close> is \<open>time.time()\<close>, \<open>tk\<close> the answer of \<open>mt5.symbol_info_tick\<close>. A \<open>continue\<close>
  ends the turn with the requests made so far. The division by \<open>self.point_value\<close>
  raises when the point is zero.
\<close>

definition time_based_exit :: "config \<Rightarrow> rat \<Rightarrow> tracked option \<Rightarrow> rat \<Rightarrow> bool" where
  "time_based_exit cfg now trk pp =
     (case trk of
        None \<Rightarrow> False
      | Some i \<Rightarrow>
          (case open_time i of
             None \<Rightarrow> False
           | Some t0 \<Rightarrow> now - t0 > MAX_HOLD_TIME_SECONDS cfg \<and> pp \<le> 0))"

definition manage_position ::
  "config \<Rightarrow> symbol_info \<Rightarrow> bar_context \<Rightarrow> rat \<Rightarrow> tick_info option \<Rightarrow> bool
     \<Rightarrow> tracked option \<Rightarrow> position \<Rightarrow> action list \<times> bool \<times> error option" where
  "manage_position cfg si ctx now tk close_ok trk pos =
     (let taken = (case trk of None \<Rightarrow> False | Some i \<Rightarrow> partial_profit_taken i) in
      case sl pos of
        None \<Rightarrow> ([], taken, None)
      | Some current_sl \<Rightarrow>
          (case tk of
             None \<Rightarrow> ([], taken, None)
           | Some t \<Rightarrow>
               if point si = 0 then ([], taken, Some ZeroDivisionError)
               else
                 (let pp = profit_points si t pos;
                      (acts1, taken1, err1) =
                        partial_profit_taking si close_ok trk pos current_sl pp
                  in if err1 \<noteq> None then (acts1, taken1, err1)
                     else if time_based_exit cfg now trk pp then
                       (acts1 @ [ClosePosition (ticket pos) None ''TIME-BASED EXIT (UNPROFITABLE)''],
                        taken1, None)
                     else if current_adverse_excursion_points si t pos
                               \<ge> MAX_ADVERSE_EXCURSION_CLOSE_POINTS then
                       (acts1 @ [ClosePosition (ticket pos) None ''MAX ADVERSE EXCURSION''],
                        taken1, None)
                     else
                       (let (acts2, err2) = stop_rules cfg si ctx t pos current_sl
                        in (acts1 @ acts2, taken1, err2)))))"

section \<open>Bars from ticks\<close>

text \<open>
  A row of \<open>mt5.copy_ticks_from\<close>: the fields of a tick that the bot reads, the time in
  milliseconds. A bar is a row of \<open>self.all_custom_bars\<close>: its index \<open>time\<close> is the start
  of the bar in nanoseconds, and the columns \<open>rsi\<close>, \<open>%k\<close> and \<open>%d\<close> that the main loop
  adds are \<open>None\<close> where the frame holds NaN. The column \<open>open\<close> is \<open>bar_open\<close> here.
\<close>

record tick = tick_info +
  time_msc :: int
  volume_real :: rat

record bar =
  time :: int
  bar_open :: rat
  high :: rat
  low :: rat
  close :: rat
  real_volume :: rat
  rsi :: "rat option"
  percent_k :: "rat option"
  percent_d :: "rat option"

definition bid_ask_avg :: "tick \<Rightarrow> rat" where
  "bid_ask_avg t = (bid t + ask t) / 2"

definition bar_time :: "int \<Rightarrow> tick \<Rightarrow> int" where
  "bar_time interval_seconds t =
     (time_msc t * 10 ^ 6 div (interval_seconds * 10 ^ 9)) * (interval_seconds * 10 ^ 9)"

text \<open>
  \<open>groupby('bar_time').agg(first, max, min, last)\<close> and the sum of the volumes: one bar
  for each bar time that occurs, in increasing order of the key, built from the ticks
  of that key in the order in which they came. A group is never empty.
\<close>

definition agg :: "int \<Rightarrow> tick list \<Rightarrow> bar" where
  "agg k g =
     \<lparr> time = k,
       bar_open = bid_ask_avg (hd g),
       high = Max (set (map bid_ask_avg g)),
       low = Min (set (map bid_ask_avg g)),
       close = bid_ask_avg (last g),
       real_volume = sum_list (map volume_real g),
       rsi = None, percent_k = None, percent_d = None \<rparr>"

definition get_custom_bars_from_ticks :: "int \<Rightarrow> tick list \<Rightarrow> bar list" where
  "get_custom_bars_from_ticks interval_seconds ticks =
     map (\<lambda>k. agg k (filter (\<lambda>t. bar_time interval_seconds t = k) ticks))
         (sort (remdups (map (bar_time interval_seconds) ticks)))"

subsection \<open>The retained window (main loop, lines 941 to 970)\<close>

record bar_state =
  all_custom_bars :: "bar list"
  last_processed_bar_time :: "int option"

definition initial_bar_state :: bar_state where
  "initial_bar_state = \<lparr> all_custom_bars = [], last_processed_bar_time = None \<rparr>"

text \<open>
  \<open>DataFrame.drop_duplicates()\<close> compares the columns, not the index, and keeps the first
  of the rows that are equal; NaN equals NaN there.
\<close>

definition row :: "bar \<Rightarrow> rat \<times> rat \<times> rat \<times> rat \<times> rat \<times> rat option \<times> rat option \<times> rat option" where
  "row b = (bar_open b, high b, low b, close b, real_volume b, rsi b, percent_k b, percent_d b)"

fun drop_duplicates_seen :: "bar list \<Rightarrow> bar list \<Rightarrow> bar list" where
  "drop_duplicates_seen seen [] = []"
| "drop_duplicates_seen seen (b # bs) =
     (if row b \<in> row ` set seen then drop_duplicates_seen seen bs
      else b # drop_duplicates_seen (b # seen) bs)"

definition drop_duplicates :: "bar list \<Rightarrow> bar list" where
  "drop_duplicates bs = drop_duplicates_seen [] bs"

definition sort_index :: "bar list \<Rightarrow> bar list" where
  "sort_index bs = sort_key time bs"

definition bars_needed :: nat where
  "bars_needed =
     max (max RSI_PERIOD ATR_PERIOD) (max SR_LOOKBACK_BARS (K_PERIOD + D_PERIOD)) * 2 + 5
       + MA_SLOPE_LOOKBACK_BARS"

definition append_new_bars :: "bar list \<Rightarrow> bar_state \<Rightarrow> bar_state" where
  "append_new_bars new_bars st =
     (if new_bars = [] then st
      else
        let new_bars' =
              filter (\<lambda>b. case last_processed_bar_time st of
                             None \<Rightarrow> True | Some t \<Rightarrow> time b > t) new_bars
        in if new_bars' = [] then st
           else
             let bs = sort_index (drop_duplicates (all_custom_bars st @ new_bars'));
                 tmax = Max (set (map time bs))
             in \<lparr> all_custom_bars =
                    (if length bs > bars_needed then drop (length bs - bars_needed) bs else bs),
                  last_processed_bar_time = Some tmax \<rparr>)"

text \<open>
  One iteration of the main loop as far as the bars go: the ticks fetched, folded into
  bars and appended; then the indicator columns are overwritten (lines 1015 to 1022),
  here by any values \<open>cols\<close> gives for a bar.
\<close>

definition set_indicator_columns ::
  "(bar \<Rightarrow> rat option \<times> rat option \<times> rat option) \<Rightarrow> bar list \<Rightarrow> bar list" where
  "set_indicator_columns cols bs =
     map (\<lambda>b. case cols b of (r, k, d) \<Rightarrow> b \<lparr> rsi := r, percent_k := k, percent_d := d \<rparr>) bs"

definition bar_iteration ::
  "tick list \<times> (bar \<Rightarrow> rat option \<times> rat option \<times> rat option) \<Rightarrow> bar_state \<Rightarrow> bar_state" where
  "bar_iteration inp st =
     (let st' = append_new_bars (get_custom_bars_from_ticks TICK_BAR_INTERVAL_SECONDS (fst inp)) st
      in st' \<lparr> all_custom_bars := set_indicator_columns (snd inp) (all_custom_bars st') \<rparr>)"

definition run_bars ::
  "(tick list \<times> (bar \<Rightarrow> rat option \<times> rat option \<times> rat option)) list \<Rightarrow> bar_state" where
  "run_bars inps = fold bar_iteration inps initial_bar_state"

definition ohlc_ok :: "bar \<Rightarrow> bool" where
  "ohlc_ok b = (low b \<le> bar_open b \<and> bar_open b \<le> high b \<and> low b \<le> close b \<and> close b \<le> high b)"

definition bars_inv :: "bar_state \<Rightarrow> bool" where
  "bars_inv st =
     (sorted_wrt (<) (map time (all_custom_bars st))
      \<and> (\<forall>b \<in> set (all_custom_bars st).
            ohlc_ok b \<and> (\<exists>t. last_processed_bar_time st = Some t \<and> time b \<le> t)))"

section \<open>Indicators\<close>

text \<open>
  \<open>Series.ewm(com, min_periods, adjust=False).mean()\<close> on a series without NaN: the
  first value is the first observation, each later one is
  \<open>(1 - alpha) * previous + alpha * observation\<close> with \<open>alpha = 1 / (1 + com)\<close>, and the
  entries with fewer than \<open>min_periods\<close> observations are NaN (\<open>None\<close>). Both callers
  pass \<open>com = period - 1\<close> and \<open>min_periods = period\<close>; pandas refuses a negative \<open>com\<close>.
\<close>

fun ewm_from :: "rat \<Rightarrow> rat \<Rightarrow> rat list \<Rightarrow> rat list" where
  "ewm_from alpha prev [] = []"
| "ewm_from alpha prev (x # xs) =
     ((1 - alpha) * prev + alpha * x) # ewm_from alpha ((1 - alpha) * prev + alpha * x) xs"

fun ewm :: "rat \<Rightarrow> rat list \<Rightarrow> rat list" where
  "ewm alpha [] = []"
| "ewm alpha (x # xs) = x # ewm_from alpha x xs"

definition ewm_mean :: "nat \<Rightarrow> rat list \<Rightarrow> error + rat option list" where
  "ewm_mean period xs =
     (if period = 0 then Inl ValueError
      else Inr (map (\<lambda>(i, y). if period \<le> i + 1 then Some y else None)
                    (enumerate 0 (ewm (1 / of_nat period) xs))))"

text \<open>
  The values a pandas float series can hold in \<open>calculate_rsi\<close>: a number, the two
  infinities and NaN. Dividing series never raises: a nonzero number by zero is an
  infinity and zero by zero is NaN. (The smoothed loss can be the float \<open>-0.0\<close>, which
  turns the infinity into the negative one; the RSI that results is the same.)
\<close>

datatype fval = Num rat | PosInf | NegInf | NaN

definition series_div :: "rat option \<Rightarrow> rat option \<Rightarrow> fval" where
  "series_div a b =
     (case (a, b) of
        (Some x, Some y) \<Rightarrow>
          if y = 0 then (if x = 0 then NaN else if x > 0 then PosInf else NegInf)
          else Num (x / y)
      | _ \<Rightarrow> NaN)"

text \<open>\<open>100 - (100 / (1 + rs))\<close> on such a value.\<close>

definition rsi_of_rs :: "fval \<Rightarrow> fval" where
  "rsi_of_rs rs =
     (case rs of
        Num r \<Rightarrow> if 1 + r = 0 then NegInf else Num (100 - 100 / (1 + r))
      | PosInf \<Rightarrow> Num 100
      | NegInf \<Rightarrow> Num 100
      | NaN \<Rightarrow> NaN)"

text \<open>\<open>.replace([np.inf], 100).replace([-np.inf], 0).fillna(0).clip(0, 100)\<close>.\<close>

definition replace_fill_clip :: "fval \<Rightarrow> rat" where
  "replace_fill_clip v =
     (case v of
        Num r \<Rightarrow> min 100 (max 0 r)
      | PosInf \<Rightarrow> 100
      | NegInf \<Rightarrow> 0
      | NaN \<Rightarrow> 0)"

text \<open>\<open>Series.diff()\<close>: the first entry is NaN.\<close>

fun diff :: "rat list \<Rightarrow> rat option list" where
  "diff [] = []"
| "diff (x # xs) = None # map (\<lambda>(a, b). Some (b - a)) (zip (x # xs) xs)"

definition gain :: "rat list \<Rightarrow> rat list" where
  "gain closes = map (\<lambda>d. case d of None \<Rightarrow> 0 | Some v \<Rightarrow> if v > 0 then v else 0) (diff closes)"

definition loss :: "rat list \<Rightarrow> rat list" where
  "loss closes = map (\<lambda>d. case d of None \<Rightarrow> 0 | Some v \<Rightarrow> - (if v < 0 then v else 0)) (diff closes)"

definition calculate_rsi :: "bar list \<Rightarrow> nat \<Rightarrow> error + rat list option" where
  "calculate_rsi data period =
     (if length data < period + 1 then Inr None
      else
        case (ewm_mean period (gain (map close data)), ewm_mean period (loss (map close data))) of
          (Inr avg_gain, Inr avg_loss) \<Rightarrow>
            Inr (Some (map (\<lambda>(g, l). replace_fill_clip (rsi_of_rs (series_div g l)))
                           (zip avg_gain avg_loss)))
        | _ \<Rightarrow> Inl ValueError)"

text \<open>
  \<open>calculate_rsi\<close> of \<open>ULTRA_bot.py\<close>, the sibling implementation, on a list of prices:
  the averages are plain means of the first \<open>period\<close> gains and losses, and a zero
  average loss returns 100 before any division.
\<close>

definition ultra_calculate_rsi :: "rat list \<Rightarrow> nat \<Rightarrow> fval option" where
  "ultra_calculate_rsi prices period =
     (if length prices < period + 1 then None
      else if period = 0 then Some NaN
      else
        let deltas = map (\<lambda>(a, b). b - a) (zip prices (tl prices));
            gains = map (\<lambda>d. if d > 0 then d else 0) deltas;
            losses = map (\<lambda>d. if d < 0 then - d else 0) deltas;
            avg_gain = sum_list (take period gains) / of_nat period;
            avg_loss = sum_list (take period losses) / of_nat period
        in if avg_loss = 0 then Some (Num 100)
           else Some (rsi_of_rs (Num (avg_gain / avg_loss))))"

text \<open>
  \<open>calculate_atr\<close>: the true range of the first bar is its high minus its low (the
  two terms with the previous close are NaN there and \<open>max(axis=1)\<close> skips them).
\<close>

fun true_range :: "bar list \<Rightarrow> rat list" where
  "true_range [] = []"
| "true_range (b # bs) =
     (high b - low b) #
     map (\<lambda>(p, c). max (high c - low c) (max \<bar>high c - close p\<bar> \<bar>low c - close p\<bar>))
         (zip (b # bs) bs)"

definition calculate_atr :: "bar list \<Rightarrow> nat \<Rightarrow> error + rat option list option" where
  "calculate_atr data period =
     (if length data < period then Inr None
      else case ewm_mean period (true_range data) of
             Inl e \<Rightarrow> Inl e
           | Inr atr \<Rightarrow> Inr (Some atr))"

text \<open>
  The latest ATR as both \<open>manage_positions\<close> and the main loop take it: \<open>None\<close> when
  the series is missing, empty or ends in NaN.
\<close>

definition latest_atr :: "bar list \<Rightarrow> error + rat option" where
  "latest_atr bars =
     (case calculate_atr bars ATR_PERIOD of
        Inl e \<Rightarrow> Inl e
      | Inr None \<Rightarrow> Inr None
      | Inr (Some atr) \<Rightarrow> Inr (if atr = [] then None else last atr))"

text \<open>The preamble of \<open>manage_positions\<close> (lines 649 to 671).\<close>

definition min_bars_for_indicators :: nat where
  "min_bars_for_indicators =
     max (max RSI_PERIOD ATR_PERIOD) (max SR_LOOKBACK_BARS (K_PERIOD + D_PERIOD)) * 2 + 5"

definition position_context :: "bar list \<Rightarrow> error + bar_context" where
  "position_context bars =
     (let c = (if bars = [] then None else Some (close (last bars))) in
      if bars = [] \<or> length bars < min_bars_for_indicators then
        Inr \<lparr> current_atr = None, previous_high_in_period = None,
              previous_low_in_period = None, current_bar_close = c \<rparr>
      else
        case latest_atr bars of
          Inl e \<Rightarrow> Inl e
        | Inr a \<Rightarrow>
            if length bars \<ge> SR_LOOKBACK_BARS then
              let recent = drop (length bars - SR_LOOKBACK_BARS) bars in
              Inr \<lparr> current_atr = a,
                    previous_high_in_period = Some (Max (set (map high recent))),
                    previous_low_in_period = Some (Min (set (map low recent))),
                    current_bar_close = c \<rparr>
            else
              Inr \<lparr> current_atr = a, previous_high_in_period = None,
                    previous_low_in_period = None, current_bar_close = c \<rparr>)"

section \<open>Bot state: cooldown timers and the reversal watch\<close>

record bot_state =
  sl_hit_active :: bool
  sl_hit_direction :: "side option"
  sl_hit_confirmation_count :: int
  sl_hit_ma_level :: "rat option"
  last_trade_closed_timestamp :: rat
  last_buy_entry_timestamp :: rat
  last_sell_entry_timestamp :: rat


text \<open>
  The reversal confirmation logic of the main loop (lines 1102 to 1134), run in every
  iteration that reaches it, with the number of confirmations \<open>n\<close> as a parameter;
  \<open>bar_close\<close> (the local \<open>current_bar_close\<close>) is the close of the last row of \<open>self.all_custom_bars\<close>. The
  message of line 1128 formats \<open>sl_hit_ma_level\<close> with \<open>.5f\<close> before the flags are
  cleared, and raises when the level is \<open>None\<close>.
\<close>

definition reversal_confirmation_n ::
  "int \<Rightarrow> rat option \<Rightarrow> rat \<Rightarrow> bot_state \<Rightarrow> error option \<times> bot_state" where
  "reversal_confirmation_n n trend_ma bar_close st =
     (case trend_ma of
        None \<Rightarrow> (None, st)
      | Some ma \<Rightarrow>
          if \<not> sl_hit_active st then (None, st)
          else
            let st1 =
              (case sl_hit_direction st of
                 Some BUY \<Rightarrow>
                   if bar_close < ma
                   then st \<lparr> sl_hit_confirmation_count := sl_hit_confirmation_count st + 1 \<rparr>
                   else st \<lparr> sl_hit_active := False, sl_hit_confirmation_count := 0 \<rparr>
               | Some SELL \<Rightarrow>
                   if bar_close > ma
                   then st \<lparr> sl_hit_confirmation_count := sl_hit_confirmation_count st + 1 \<rparr>
                   else st \<lparr> sl_hit_active := False, sl_hit_confirmation_count := 0 \<rparr>
               | None \<Rightarrow> st)
            in if sl_hit_active st1 \<and> sl_hit_confirmation_count st1 \<ge> n then
                 (case sl_hit_ma_level st1 of
                    None \<Rightarrow> (Some TypeError, st1)
                  | Some lvl \<Rightarrow>
                      (None, st1 \<lparr> last_trade_closed_timestamp := 0, sl_hit_active := False,
                                   sl_hit_direction := None, sl_hit_confirmation_count := 0,
                                   sl_hit_ma_level := None \<rparr>))
               else (None, st1))"

definition reversal_confirmation :: "rat option \<Rightarrow> rat \<Rightarrow> bot_state \<Rightarrow> error option \<times> bot_state" where
  "reversal_confirmation = reversal_confirmation_n REVERSAL_CONFIRMATION_BARS"






section \<open>Entries (main loop, lines 1137 to 1281)\<close>

datatype slope = UP | DOWN | FLAT | UNKNOWN

text \<open>
  The values the entry logic reads in one iteration: the trend MA and its slope, the
  indicators of the last bar and the stochastic of the bar before, the two last bars,
  the ATR of line 1062, the live tick, the number of open positions, and the equity of
  \<open>mt5.account_info()\<close> (\<open>None\<close> when the venue gives no account).
\<close>

record snapshot =
  m5_ma :: "rat option"
  m5_ma_slope :: slope
  current_rsi :: rat
  current_percent_k :: rat
  current_percent_d :: rat
  prev_percent_k :: rat
  prev_percent_d :: rat
  prev_bar :: bar
  current_bar :: bar
  loop_atr :: "rat option"
  live :: tick_info
  num_open_positions :: nat
  account_equity :: "rat option"

record order =
  order_type :: side
  price :: rat
  order_volume :: rat
  order_sl :: rat
  order_tp :: rat
  comment :: string

datatype signal = DipBuy | TrendContinuationBuy | SellRally | TrendContinuationSell

definition dynamic_tp_points :: "config \<Rightarrow> rat option \<Rightarrow> rat" where
  "dynamic_tp_points cfg atr =
     (case atr of
        None \<Rightarrow> TP_POINTS cfg
      | Some a \<Rightarrow>
          max MIN_DYNAMIC_TP_POINTS (min MAX_DYNAMIC_TP_POINTS (a * DYNAMIC_TP_ATR_MULTIPLIER)))"

definition live_mid_price :: "snapshot \<Rightarrow> rat" where
  "live_mid_price sn = (bid (live sn) + ask (live sn)) / 2"

text \<open>The chain of \<open>if\<close> and \<open>elif\<close> of lines 1166 to 1268; the first branch that holds wins.\<close>

definition entry_signal :: "config \<Rightarrow> rat \<Rightarrow> bot_state \<Rightarrow> snapshot \<Rightarrow> signal option" where
  "entry_signal cfg now st sn =
     (case m5_ma sn of
        None \<Rightarrow> None
      | Some ma \<Rightarrow>
          if m5_ma_slope sn = UP \<and> live_mid_price sn > ma
             \<and> current_rsi sn < RSI_OVERSOLD cfg
             \<and> current_percent_k sn > current_percent_d sn
             \<and> prev_percent_k sn \<le> prev_percent_d sn
             \<and> current_percent_k sn < STOCHASTIC_OVERSOLD + 5
             \<and> low (prev_bar sn) \<le> ma \<and> close (prev_bar sn) > ma
             \<and> of_nat (num_open_positions sn) < NUM_CONCURRENT_TRADES cfg
             \<and> now - last_buy_entry_timestamp st > TRADE_ENTRY_COOLDOWN_SECONDS
          then Some DipBuy
          else if m5_ma_slope sn = UP \<and> live_mid_price sn > ma
             \<and> current_rsi sn < 60 \<and> current_rsi sn > 40
             \<and> current_percent_k sn > current_percent_d sn
             \<and> prev_percent_k sn \<le> prev_percent_d sn
             \<and> close (prev_bar sn) < bar_open (prev_bar sn)
             \<and> close (current_bar sn) > bar_open (current_bar sn)
             \<and> close (current_bar sn) > high (prev_bar sn)
             \<and> of_nat (num_open_positions sn) < NUM_CONCURRENT_TRADES cfg
             \<and> now - last_buy_entry_timestamp st > TRADE_ENTRY_COOLDOWN_SECONDS
          then Some TrendContinuationBuy
          else if m5_ma_slope sn = DOWN \<and> live_mid_price sn < ma
             \<and> current_rsi sn > RSI_OVERBOUGHT cfg
             \<and> current_percent_k sn < current_percent_d sn
             \<and> prev_percent_k sn \<ge> prev_percent_d sn
             \<and> current_percent_k sn > STOCHASTIC_OVERBOUGHT - 5
             \<and> high (prev_bar sn) \<ge> ma \<and> close (prev_bar sn) < ma
             \<and> of_nat (num_open_positions sn) < NUM_CONCURRENT_TRADES cfg
             \<and> now - last_sell_entry_timestamp st > TRADE_ENTRY_COOLDOWN_SECONDS
          then Some SellRally
          else if m5_ma_slope sn = DOWN \<and> live_mid_price sn < ma
             \<and> current_rsi sn < 60 \<and> current_rsi sn > 40
             \<and> current_percent_k sn < current_percent_d sn
             \<and> prev_percent_k sn \<ge> prev_percent_d sn
             \<and> close (prev_bar sn) > bar_open (prev_bar sn)
             \<and> close (current_bar sn) < bar_open (current_bar sn)
             \<and> close (current_bar sn) < low (prev_bar sn)
             \<and> of_nat (num_open_positions sn) < NUM_CONCURRENT_TRADES cfg
             \<and> now - last_sell_entry_timestamp st > TRADE_ENTRY_COOLDOWN_SECONDS
          then Some TrendContinuationSell
          else None)"

definition calculate_dynamic_lot_size ::
  "symbol_info \<Rightarrow> rat option \<Rightarrow> rat \<Rightarrow> rat \<Rightarrow> error + rat" where
  "calculate_dynamic_lot_size si equity risk_percent stop_loss_points =
     (case equity of
        None \<Rightarrow> Inr (volume_min si)
      | Some eq \<Rightarrow>
          let risk_per_standard_lot_usd =
                stop_loss_points * (trade_contract_size si * point si)
          in if risk_per_standard_lot_usd \<le> 0 then Inr (volume_min si)
             else if volume_step si = 0 then Inl ZeroDivisionError
             else
               let calculated_lot_size =
                     eq * risk_percent / risk_per_standard_lot_usd;
                   adjusted_lot_size =
                     max (volume_min si)
                         (of_int \<lfloor>calculated_lot_size / volume_step si\<rfloor> * volume_step si)
               in Inr (min (volume_max si) adjusted_lot_size))"

definition signal_side :: "signal \<Rightarrow> side" where
  "signal_side sg =
     (case sg of DipBuy \<Rightarrow> BUY | TrendContinuationBuy \<Rightarrow> BUY
               | SellRally \<Rightarrow> SELL | TrendContinuationSell \<Rightarrow> SELL)"

definition signal_comment :: "signal \<Rightarrow> string" where
  "signal_comment sg =
     (case sg of
        DipBuy \<Rightarrow> ''RSI+Stoch+MA_DipBuy_TrendGOLD''
      | TrendContinuationBuy \<Rightarrow> ''Trend_Continuation_Buy_GOLD''
      | SellRally \<Rightarrow> ''RSI+Stoch+MA_SellRally_TrendGOLD''
      | TrendContinuationSell \<Rightarrow> ''Trend_Continuation_Sell_GOLD'')"

text \<open>
  From the cooldown test of line 1137 to the call of \<open>send_order\<close>: the order sent, if
  any. The spread of line 1079 divides by the point and raises when it is zero.
\<close>

definition strategy_entry ::
  "config \<Rightarrow> symbol_info \<Rightarrow> rat \<Rightarrow> bot_state \<Rightarrow> snapshot \<Rightarrow> error + order option" where
  "strategy_entry cfg si now st sn =
     (if point si = 0 then Inl ZeroDivisionError
      else if now - last_trade_closed_timestamp st < COOLDOWN_AFTER_TRADE_SECONDS cfg
      then Inr None
      else if (ask (live sn) - bid (live sn)) / point si > MAX_SPREAD_POINTS cfg then Inr None
      else
        case entry_signal cfg now st sn of
          None \<Rightarrow> Inr None
        | Some sg \<Rightarrow>
            (case calculate_dynamic_lot_size si (account_equity sn)
                    (RISK_PERCENT_PER_TRADE cfg) (SL_POINTS cfg) of
               Inl e \<Rightarrow> Inl e
             | Inr dynamic_lot_size \<Rightarrow>
                 if dynamic_lot_size \<le> 0 then Inr None
                 else
                   Inr (Some
                     (case signal_side sg of
                        BUY \<Rightarrow>
                          \<lparr> order_type = BUY, price = ask (live sn),
                            order_volume = dynamic_lot_size,
                            order_sl = ask (live sn) - SL_POINTS cfg * point si,
                            order_tp = ask (live sn)
                              + dynamic_tp_points cfg (loop_atr sn) * point si,
                            comment = signal_comment sg \<rparr>
                      | SELL \<Rightarrow>
                          \<lparr> order_type = SELL, price = bid (live sn),
                            order_volume = dynamic_lot_size,
                            order_sl = bid (live sn) + SL_POINTS cfg * point si,
                            order_tp = bid (live sn)
                              - dynamic_tp_points cfg (loop_atr sn) * point si,
                            comment = signal_comment sg \<rparr>))))"

section \<open>Example inputs\<close>

text \<open>
  A symbol as a broker quotes gold: prices in steps of 0.01, volumes from 0.01 lots in
  steps of 0.01, no minimum stop distance. \<open>no_levels\<close> is the bar context of a bot that
  holds fewer bars than \<open>manage_positions\<close> wants for the ATR and the lookback, with the
  given close of the last bar.
\<close>

definition xauusd :: symbol_info where
  "xauusd = \<lparr> volume_min = 1 / 100, volume_max = 100, volume_step = 1 / 100, point = 1 / 100,
              trade_stops_level = 0, trade_contract_size = 100 \<rparr>"

definition no_levels :: "rat \<Rightarrow> bar_context" where
  "no_levels c = \<lparr> current_atr = None, previous_high_in_period = None,
                   previous_low_in_period = None, current_bar_close = Some c \<rparr>"

text \<open>A market that does not move: \<open>n\<close> bars five seconds apart, every price equal to \<open>c\<close>.\<close>

definition flat_bars :: "nat \<Rightarrow> rat \<Rightarrow> bar list" where
  "flat_bars n c =
     map (\<lambda>i. \<lparr> time = 5000000000 * int i, bar_open = c, high = c, low = c, close = c,
                 real_volume = 1, rsi = None, percent_k = None, percent_d = None \<rparr>) [0..<n]"

text \<open>
  A bot with no watch active and all timers at zero, and an iteration that shows the
  dip-buy pattern: trend MA 2000.00 rising, live mid-price above it, RSI 30, %K 25 above
  %D 22, the previous bar dipping to the MA and closing above it. The %K of the
  previous bar is the parameter; its %D is 20.
\<close>

definition idle_state :: bot_state where
  "idle_state = \<lparr> sl_hit_active = False, sl_hit_direction = None, sl_hit_confirmation_count = 0,
                  sl_hit_ma_level = None, last_trade_closed_timestamp = 0,
                  last_buy_entry_timestamp = 0, last_sell_entry_timestamp = 0 \<rparr>"

definition dip_snapshot :: "rat \<Rightarrow> snapshot" where
  "dip_snapshot prev_k =
     \<lparr> m5_ma = Some 2000, m5_ma_slope = UP, current_rsi = 30,
       current_percent_k = 25, current_percent_d = 22,
       prev_percent_k = prev_k, prev_percent_d = 20,
       prev_bar = \<lparr> time = 0, bar_open = 200080 / 100, high = 200090 / 100, low = 199950 / 100,
                    close = 200050 / 100, real_volume = 1, rsi = None, percent_k = None,
                    percent_d = None \<rparr>,
       current_bar = \<lparr> time = 5000000000, bar_open = 200050 / 100, high = 200120 / 100,
                       low = 200040 / 100, close = 200110 / 100, real_volume = 1, rsi = None,
                       percent_k = None, percent_d = None \<rparr>,
       loop_atr = Some (1 / 2),
       live = \<lparr> bid = 200100 / 100, ask = 200120 / 100 \<rparr>,
       num_open_positions = 0, account_equity = Some 10000 \<rparr>"

text \<open>
  A falling market: \<open>n\<close> bars five seconds apart, the bar of index \<open>i\<close> with every price
  at \<open>c - i / 100\<close>, held by a bot that has processed them all. \<open>stopped_out\<close> is the
  state of the bot right after the stop-loss closure of a long trade is registered at
  time 1000 with the trend MA at 2000.00.
\<close>

definition falling_bars :: "nat \<Rightarrow> rat \<Rightarrow> bar list" where
  "falling_bars n c =
     map (\<lambda>i. \<lparr> time = 5000000000 * int i, bar_open = c - of_nat i / 100,
                 high = c - of_nat i / 100, low = c - of_nat i / 100,
                 close = c - of_nat i / 100, real_volume = 1,
                 rsi = None, percent_k = None, percent_d = None \<rparr>) [0..<n]"



section \<open>Configuration: results\<close>

lemma load_configuration_caps_risk:
  "U_RISK_PERCENT_PER_TRADE (load_configuration (Some [''RISK_PERCENT_PER_TRADE'' \<mapsto> 1 / 2]) c)
     = 15 / 1000"
  by (simp add: load_configuration_def)

lemma load_config_from_file_keeps_value:
  "cfg ''RISK_PERCENT_PER_TRADE'' = Some v \<Longrightarrow>
     RISK_PERCENT_PER_TRADE (fst (load_config_from_file (Some cfg) c)) = v"
  by (simp add: load_config_from_file_def get_or_def)

text \<open>
  Claim C6. Loading a configuration file whose risk percent per trade is out of range
  (here 0.5, fifty percent of the equity) should clamp it to a safety ceiling. The
  loader of \<open>gold_tick5t.py\<close> stores the value of the file unchanged.
\<close>

theorem C6_risk_percent_not_clamped:
  "load_config_from_file (Some [''RISK_PERCENT_PER_TRADE'' \<mapsto> 1 / 2]) default_config
     = (default_config \<lparr> RISK_PERCENT_PER_TRADE := 1 / 2 \<rparr>, True)"
  by (simp add: load_config_from_file_def get_or_def default_config_def)

section \<open>Position management: results\<close>

lemmas class_constants =
  AGGRESSIVE_SL_PERCENT_TRIGGER_def AGGRESSIVE_SL_FIXED_BUFFER_FOR_TRIGGER_def
  AGGRESSIVE_SL_MIN_DISTANCE_FROM_CURRENT_def SR_BREACH_BUFFER_POINTS_def
  MAX_ADVERSE_EXCURSION_CLOSE_POINTS_def PARTIAL_PROFIT_TRIGGER_POINTS_def
  PARTIAL_PROFIT_PERCENTAGE_def BREAK_EVEN_BUFFER_POINTS_def

lemmas manage_defs =
  manage_position_def partial_profit_taking_def time_based_exit_def stop_rules_def
  aggressive_loss_limiter_def momentum_confirmed_def new_aggressive_sl_candidate_def
  aggressive_trigger_price_level_def dynamic_aggressive_trigger_points_def break_even_def
  atr_trailing_stop_def new_ts_sl_def profit_points_def current_adverse_excursion_points_def
  break_even_level_def better_def volume_to_close_def

lemmas example_defs = xauusd_def no_levels_def default_config_def


text \<open>
  With at least one bar but fewer than \<open>manage_positions\<close> wants, its preamble gives no
  ATR and no support or resistance level, only the close of the last bar.
\<close>

lemma position_context_few_bars:
  "bars \<noteq> [] \<Longrightarrow> length bars < min_bars_for_indicators \<Longrightarrow>
     position_context bars = Inr (no_levels (close (last bars)))"
  by (simp add: position_context_def no_levels_def)

text \<open>
  The stops the break-even rule and the trailing rule send are strictly better than the
  stop of the position; the stop the aggressive loss limiter sends is strictly worse:
  lower for a long position, higher for a short one.
\<close>

lemma break_even_tightens:
  "ModifySlTp k s q \<in> set (break_even si pos current_sl) \<Longrightarrow> better pos s current_sl"
  by (auto simp: break_even_def split: if_splits)

lemma atr_trailing_stop_tightens:
  "ModifySlTp k s q \<in> set (atr_trailing_stop cfg si ctx t pos current_sl pp)
     \<Longrightarrow> better pos s current_sl"
  by (auto simp: atr_trailing_stop_def split: if_splits option.splits)

lemma aggressive_loss_limiter_loosens:
  "ModifySlTp k s q \<in> set (fst (aggressive_loss_limiter cfg si ctx t pos current_sl))
     \<Longrightarrow> better pos current_sl s"
  by (auto simp: aggressive_loss_limiter_def better_def Let_def split: if_splits side.splits)

text \<open>
  Claim C1. Every stop the position manager applies should reduce risk, and the first
  placement of the aggressive loss limiter should never widen risk beyond the original
  stop. A long position opened at 2000.00 with its original stop at 1998.50, bid at
  1998.52 and the last bar closed below the trigger level: the limiter moves the stop
  down to 1998.47, and in the next cycle, with the bid at 1998.49, down again to 1998.44.
\<close>

theorem C1_aggressive_limiter_widens_stop:
  "manage_position default_config xauusd (no_levels (199855 / 100)) 10
     (Some \<lparr> bid = 199852 / 100, ask = 199860 / 100 \<rparr>) True
     (Some \<lparr> open_time = Some 0, partial_profit_taken = False \<rparr>)
     \<lparr> ticket = 1, price_open = 2000, sl = Some (199850 / 100), tp = 2005, ptype = BUY,
       volume = 1 / 10 \<rparr>
   = ([ModifySlTp 1 (199847 / 100) 2005], False, None)
  \<and> manage_position default_config xauusd (no_levels (199850 / 100)) 11
     (Some \<lparr> bid = 199849 / 100, ask = 199857 / 100 \<rparr>) True
     (Some \<lparr> open_time = Some 0, partial_profit_taken = False \<rparr>)
     \<lparr> ticket = 1, price_open = 2000, sl = Some (199847 / 100), tp = 2005, ptype = BUY,
       volume = 1 / 10 \<rparr>
   = ([ModifySlTp 1 (199844 / 100) 2005], False, None)
  \<and> (199844 / 100 :: rat) < 199847 / 100 \<and> (199847 / 100 :: rat) < 199850 / 100"
  by (simp add: manage_defs class_constants example_defs Let_def)











text \<open>
  When the rounded amount is at least the venue minimum, as it is whenever the minimum
  is the step and the volume is a multiple of it, the amount closed is exactly the
  volume times the percentage rounded down to the step.
\<close>

lemma volume_to_close_rounded_down:
  "volume_min si \<le> of_int \<lfloor>volume pos * PARTIAL_PROFIT_PERCENTAGE / volume_step si\<rfloor> * volume_step si
     \<Longrightarrow> volume_to_close si pos
           = of_int \<lfloor>volume pos * PARTIAL_PROFIT_PERCENTAGE / volume_step si\<rfloor> * volume_step si"
  by (simp add: volume_to_close_def)




section \<open>Bars: results\<close>

text \<open>
  The bars built from one batch of ticks have strictly increasing times and a low and a
  high that bound the open and the close; appending them to the retained window,
  dropping duplicate rows, sorting and cutting the window keep both properties, and so
  does overwriting the indicator columns.
\<close>

lemma agg_ohlc_ok: "g \<noteq> [] \<Longrightarrow> ohlc_ok (agg k g)"
proof -
  assume ne: "g \<noteq> []"
  let ?m = "set (map bid_ask_avg g)"
  have fin: "finite ?m" by simp
  have h: "bid_ask_avg (hd g) \<in> ?m" using ne by simp
  have l: "bid_ask_avg (last g) \<in> ?m" using ne by simp
  show ?thesis
    unfolding ohlc_ok_def agg_def
    using Min_le[OF fin h] Max_ge[OF fin h] Min_le[OF fin l] Max_ge[OF fin l] by simp
qed

lemma time_agg [simp]: "time (agg k g) = k"
  by (simp add: agg_def)

lemma times_get_custom_bars:
  "map time (get_custom_bars_from_ticks i ticks) = sort (remdups (map (bar_time i) ticks))"
  by (simp add: get_custom_bars_from_ticks_def comp_def)

lemma strict_times_get_custom_bars:
  "sorted_wrt (<) (map time (get_custom_bars_from_ticks i ticks))"
  by (simp add: times_get_custom_bars strict_sorted_iff)

lemma ohlc_get_custom_bars:
  "b \<in> set (get_custom_bars_from_ticks i ticks) \<Longrightarrow> ohlc_ok b"
proof -
  assume "b \<in> set (get_custom_bars_from_ticks i ticks)"
  then obtain k where k: "k \<in> set (map (bar_time i) ticks)"
    and b: "b = agg k (filter (\<lambda>t. bar_time i t = k) ticks)"
    by (auto simp: get_custom_bars_from_ticks_def)
  from k have "filter (\<lambda>t. bar_time i t = k) ticks \<noteq> []"
    by (auto simp: filter_empty_conv)
  with b show ?thesis by (simp add: agg_ohlc_ok)
qed

lemma set_drop_duplicates_seen: "set (drop_duplicates_seen seen bs) \<subseteq> set bs"
  by (induction bs arbitrary: seen) auto

lemma distinct_drop_duplicates_seen:
  "distinct (map time bs) \<Longrightarrow> distinct (map time (drop_duplicates_seen seen bs))"
proof (induction bs arbitrary: seen)
  case Nil
  then show ?case by simp
next
  case (Cons b bs)
  have "time b \<notin> time ` set (drop_duplicates_seen (b # seen) bs)"
    using Cons.prems set_drop_duplicates_seen[of "b # seen" bs] by auto
  with Cons show ?case by simp
qed

lemma sorted_wrt_drop: "sorted_wrt P xs \<Longrightarrow> sorted_wrt P (drop n xs)"
  by (metis append_take_drop_id sorted_wrt_append)

lemma append_new_bars_inv:
  assumes inv: "bars_inv st"
    and new_sorted: "sorted_wrt (<) (map time new_bars)"
    and new_ok: "\<forall>b \<in> set new_bars. ohlc_ok b"
  shows "bars_inv (append_new_bars new_bars st)"
proof -
  define nb where "nb = filter (\<lambda>b. case last_processed_bar_time st of
                             None \<Rightarrow> True | Some t \<Rightarrow> time b > t) new_bars"
  define bs where "bs = sort_index (drop_duplicates (all_custom_bars st @ nb))"
  show ?thesis
  proof (cases "new_bars = [] \<or> nb = []")
    case True
    then show ?thesis using inv by (auto simp: append_new_bars_def nb_def Let_def)
  next
    case False
    have d_old: "distinct (map time (all_custom_bars st))"
      using inv by (simp add: bars_inv_def strict_sorted_iff)
    have d_new: "distinct (map time nb)"
      using new_sorted by (simp add: nb_def strict_sorted_iff distinct_map_filter)
    have disj: "time ` set (all_custom_bars st) \<inter> time ` set nb = {}"
      using inv by (fastforce simp: bars_inv_def nb_def split: option.splits)
    have d_all: "distinct (map time (all_custom_bars st @ nb))"
      using d_old d_new disj by simp
    have sub: "set bs \<subseteq> set (all_custom_bars st) \<union> set nb"
      using set_drop_duplicates_seen[of "[]" "all_custom_bars st @ nb"]
      by (auto simp: bs_def sort_index_def drop_duplicates_def)
    have d_bs: "distinct (map time bs)"
      using distinct_drop_duplicates_seen[OF d_all, of "[]"]
      by (simp add: bs_def sort_index_def drop_duplicates_def distinct_map)
    have s_bs: "sorted_wrt (<) (map time bs)"
      using d_bs by (simp add: strict_sorted_iff bs_def sort_index_def)
    have ok_bs: "\<forall>b \<in> set bs. ohlc_ok b"
      using sub inv new_ok by (auto simp: bars_inv_def nb_def)
    have le_max: "\<forall>b \<in> set bs. time b \<le> Max (set (map time bs))"
      by simp
    have eq: "append_new_bars new_bars st =
        \<lparr> all_custom_bars =
                    (if length bs > bars_needed then drop (length bs - bars_needed) bs else bs),
                  last_processed_bar_time = Some (Max (set (map time bs))) \<rparr>"
      using False by (simp add: append_new_bars_def nb_def bs_def Let_def)
    show ?thesis
      unfolding eq bars_inv_def
      using s_bs ok_bs le_max sorted_wrt_drop[OF s_bs] 
      by (auto simp: drop_map[symmetric] dest: in_set_dropD)
  qed
qed

lemma set_indicator_columns_time [simp]:
  "map time (set_indicator_columns cols bs) = map time bs"
  by (simp add: set_indicator_columns_def comp_def split: prod.splits)

lemma set_indicator_columns_ok:
  "b \<in> set (set_indicator_columns cols bs) \<Longrightarrow> \<exists>b' \<in> set bs. time b = time b' \<and> ohlc_ok b = ohlc_ok b'"
  by (auto simp: set_indicator_columns_def ohlc_ok_def split: prod.splits)

lemma set_indicator_columns_inv:
  assumes "bars_inv st"
  shows "bars_inv (st \<lparr> all_custom_bars := set_indicator_columns cols (all_custom_bars st) \<rparr>)"
proof -
  have "\<And>b. b \<in> set (set_indicator_columns cols (all_custom_bars st)) \<Longrightarrow>
          ohlc_ok b \<and> (\<exists>t. last_processed_bar_time st = Some t \<and> time b \<le> t)"
  proof -
    fix b assume "b \<in> set (set_indicator_columns cols (all_custom_bars st))"
    then obtain b' where "b' \<in> set (all_custom_bars st)" "time b = time b'" "ohlc_ok b = ohlc_ok b'"
      using set_indicator_columns_ok by blast
    then show "ohlc_ok b \<and> (\<exists>t. last_processed_bar_time st = Some t \<and> time b \<le> t)"
      using assms by (auto simp: bars_inv_def)
  qed
  then show ?thesis using assms by (simp add: bars_inv_def)
qed

lemma bar_iteration_inv: "bars_inv st \<Longrightarrow> bars_inv (bar_iteration inp st)"
proof -
  assume inv: "bars_inv st"
  let ?st = "append_new_bars (get_custom_bars_from_ticks TICK_BAR_INTERVAL_SECONDS (fst inp)) st"
  have i: "bars_inv ?st"
    using append_new_bars_inv[OF inv strict_times_get_custom_bars] ohlc_get_custom_bars by blast
  show ?thesis
    unfolding bar_iteration_def Let_def by (rule set_indicator_columns_inv[OF i])
qed

lemma fold_bar_iteration_inv: "bars_inv st \<Longrightarrow> bars_inv (fold bar_iteration inps st)"
  by (induction inps arbitrary: st) (simp_all add: bar_iteration_inv)

lemma run_bars_inv: "bars_inv (run_bars inps)"
  unfolding run_bars_def
  by (rule fold_bar_iteration_inv) (simp add: bars_inv_def initial_bar_state_def)

lemmas bar_defs = run_bars_def bar_iteration_def append_new_bars_def get_custom_bars_from_ticks_def
  bar_time_def agg_def bid_ask_avg_def initial_bar_state_def drop_duplicates_def sort_index_def
  set_indicator_columns_def row_def bars_needed_def TICK_BAR_INTERVAL_SECONDS_def
  RSI_PERIOD_def ATR_PERIOD_def SR_LOOKBACK_BARS_def K_PERIOD_def D_PERIOD_def MA_SLOPE_LOOKBACK_BARS_def


text \<open>
  Claim C5. For every sequence of tick batches fed to the main loop, from the start of
  the bot, the bars retained have strictly increasing (hence unique) bar start times,
  and every retained bar, built from the mid-prices \<open>(bid + ask) / 2\<close> of its ticks, has
  \<open>low \<le> open \<le> high\<close> and \<open>low \<le> close \<le> high\<close>.
\<close>

theorem C5_bars_strictly_increasing_ohlc: "sorted_wrt (<) (map time (all_custom_bars (run_bars inps)))
   \<and> distinct (map time (all_custom_bars (run_bars inps)))
   \<and> (\<forall>b \<in> set (all_custom_bars (run_bars inps)). ohlc_ok b)"
  using run_bars_inv[of inps] by (auto simp: bars_inv_def strict_sorted_iff)

theorem C5_bars_strictly_increasing_ohlc_witness:
  "map time (all_custom_bars (run_bars
       [([\<lparr> bid = 2000, ask = 2001, time_msc = 1000, volume_real = 1 \<rparr>,
          \<lparr> bid = 2002, ask = 2003, time_msc = 7000, volume_real = 1 \<rparr>,
          \<lparr> bid = 1999, ask = 2000, time_msc = 2000, volume_real = 2 \<rparr>], \<lambda>b. (None, None, None)),
        ([\<lparr> bid = 2002, ask = 2004, time_msc = 8000, volume_real = 1 \<rparr>,
          \<lparr> bid = 2005, ask = 2006, time_msc = 12000, volume_real = 1 \<rparr>], \<lambda>b. (Some 50, None, None))]))
    = [0, 5000000000, 10000000000]
   \<and> ohlc_ok (hd (all_custom_bars (run_bars
       [([\<lparr> bid = 2000, ask = 2001, time_msc = 1000, volume_real = 1 \<rparr>,
          \<lparr> bid = 2002, ask = 2003, time_msc = 7000, volume_real = 1 \<rparr>,
          \<lparr> bid = 1999, ask = 2000, time_msc = 2000, volume_real = 2 \<rparr>], \<lambda>b. (None, None, None)),
        ([\<lparr> bid = 2002, ask = 2004, time_msc = 8000, volume_real = 1 \<rparr>,
          \<lparr> bid = 2005, ask = 2006, time_msc = 12000, volume_real = 1 \<rparr>], \<lambda>b. (Some 50, None, None))])))"
  (is "map time (all_custom_bars (run_bars ?X)) = _ \<and> _")
proof -
  have t: "map time (all_custom_bars (run_bars ?X)) = [0, 5000000000, 10000000000]"
    by (simp add: bar_defs Let_def)
  then have ne: "all_custom_bars (run_bars ?X) \<noteq> []" by auto
  from C5_bars_strictly_increasing_ohlc[of ?X] have "\<forall>b \<in> set (all_custom_bars (run_bars ?X)). ohlc_ok b" by simp
  with ne have "ohlc_ok (hd (all_custom_bars (run_bars ?X)))" by simp
  with t show ?thesis by simp
qed

section \<open>RSI: results\<close>

text \<open>
  With a zero average loss the value is 100 when the average gain is positive, and 0
  when the average gain is zero too: zero by zero is NaN, which \<open>fillna(0)\<close> turns
  into 0.
\<close>

lemma rsi_zero_loss:
  "0 < g \<Longrightarrow> replace_fill_clip (rsi_of_rs (series_div (Some g) (Some 0))) = 100"
  by (simp add: series_div_def rsi_of_rs_def replace_fill_clip_def)

lemma rsi_zero_gain_loss:
  "replace_fill_clip (rsi_of_rs (series_div (Some 0) (Some 0))) = 0"
  by (simp add: series_div_def rsi_of_rs_def replace_fill_clip_def)


text \<open>On a flat series every gain and every loss is zero, and so is every RSI value.\<close>

lemma closes_flat_bars: "map close (flat_bars n c) = replicate n c"
  by (simp add: flat_bars_def comp_def map_replicate_const)

lemma length_flat_bars [simp]: "length (flat_bars n c) = n"
  by (simp add: flat_bars_def)

lemma zip_Cons_replicate: "zip (c # replicate n c) (replicate n d) = replicate n (c, d)"
  by (induction n) simp_all

lemma diff_replicate: "diff (replicate n c) = (if n = 0 then [] else None # replicate (n - 1) (Some 0))"
  by (cases n) (simp_all add: zip_Cons_replicate)

lemma gain_replicate: "gain (replicate n c) = replicate n 0"
  unfolding gain_def diff_replicate by (cases n) simp_all

lemma loss_replicate: "loss (replicate n c) = replicate n 0"
  unfolding loss_def diff_replicate by (cases n) simp_all

lemma ewm_from_zero: "ewm_from alpha 0 (replicate n 0) = replicate n 0"
  by (induction n) simp_all

lemma ewm_zero: "ewm alpha (replicate n 0) = replicate n 0"
  by (cases n) (simp_all add: ewm_from_zero)

lemma ewm_mean_zero:
  "0 < p \<Longrightarrow> ewm_mean p (replicate n 0) = Inr (map (\<lambda>i. if p \<le> i + 1 then Some 0 else None) [0..<n])"
  by (simp add: ewm_mean_def ewm_zero enumerate_eq_zip list_eq_iff_nth_eq)

lemma calculate_rsi_flat:
  assumes "0 < p" and "p < n"
  shows "calculate_rsi (flat_bars n c) p = Inr (Some (replicate n 0))"
proof -
  let ?L = "map (\<lambda>i. if p \<le> i + 1 then Some (0::rat) else None) [0..<n]"
  have "map (\<lambda>(g, l). replace_fill_clip (rsi_of_rs (series_div g l))) (zip ?L ?L) = replicate n 0"
    by (simp add: list_eq_iff_nth_eq series_div_def rsi_of_rs_def replace_fill_clip_def)
  then show ?thesis
    using assms
    by (simp add: calculate_rsi_def closes_flat_bars gain_replicate loss_replicate ewm_mean_zero)
qed


text \<open>
  Claim C7. Whenever the smoothed average loss is zero the RSI should be 100. On 32
  bars that all close at 2000.00 the smoothed average loss is zero from the 14th bar
  on, and \<open>calculate_rsi\<close> of \<open>gold_tick5t.py\<close> returns 0 for every bar; \<open>calculate_rsi\<close>
  of \<open>ULTRA_bot.py\<close> returns 100 on the same closes.
\<close>

theorem C7_flat_series_rsi_is_zero:
  "ewm_mean RSI_PERIOD (loss (map close (flat_bars 32 2000)))
     = Inr (map (\<lambda>i. if 14 \<le> i + 1 then Some 0 else None) [0..<32])
   \<and> calculate_rsi (flat_bars 32 2000) RSI_PERIOD = Inr (Some (replicate 32 0))
   \<and> ultra_calculate_rsi (map close (flat_bars 32 2000)) RSI_PERIOD = Some (Num 100)"
proof -
  have z: "zip (replicate 32 (2000::rat)) (tl (replicate 32 2000)) = replicate 31 (2000, 2000)"
    by (simp add: list_eq_iff_nth_eq nth_tl)
  have u: "ultra_calculate_rsi (replicate 32 2000) 14 = Some (Num 100)"
    unfolding ultra_calculate_rsi_def Let_def z by (simp add: map_replicate_const sum_list_replicate)
  show ?thesis
    using u by (simp add: calculate_rsi_flat closes_flat_bars loss_replicate ewm_mean_zero RSI_PERIOD_def)
qed

section \<open>Entries: results\<close>

lemmas entry_defs = strategy_entry_def entry_signal_def calculate_dynamic_lot_size_def
  dynamic_tp_points_def live_mid_price_def signal_side_def signal_comment_def
  STOCHASTIC_OVERSOLD_def STOCHASTIC_OVERBOUGHT_def TRADE_ENTRY_COOLDOWN_SECONDS_def
  DYNAMIC_TP_ATR_MULTIPLIER_def MIN_DYNAMIC_TP_POINTS_def MAX_DYNAMIC_TP_POINTS_def


lemma strategy_entry_signal:
  "strategy_entry cfg si now st sn = Inr (Some ord) \<Longrightarrow>
     \<exists>sg. entry_signal cfg now st sn = Some sg \<and> order_type ord = signal_side sg
        \<and> price ord = (case signal_side sg of BUY \<Rightarrow> ask (live sn) | SELL \<Rightarrow> bid (live sn))
        \<and> order_tp ord = (case signal_side sg of
              BUY \<Rightarrow> ask (live sn) + dynamic_tp_points cfg (loop_atr sn) * point si
            | SELL \<Rightarrow> bid (live sn) - dynamic_tp_points cfg (loop_atr sn) * point si)"
  by (auto simp: strategy_entry_def split: if_splits option.splits sum.splits side.splits)




text \<open>
  Claim C10. Every entry order the strategy loop sends has its take-profit at the entry
  price (the ask for a buy, the bid for a sell) plus (buy) or minus (sell) the
  take-profit distance in points times the point value, where the distance is
  \<open>TP_POINTS\<close> when the ATR is unavailable and otherwise ATR times
  \<open>DYNAMIC_TP_ATR_MULTIPLIER\<close> clamped to the interval from \<open>MIN_DYNAMIC_TP_POINTS\<close> to
  \<open>MAX_DYNAMIC_TP_POINTS\<close>.
\<close>

theorem C10_take_profit_distance:
  assumes "strategy_entry cfg si now st sn = Inr (Some ord)"
  shows "order_tp ord =
      (case order_type ord of
         BUY \<Rightarrow> price ord + dynamic_tp_points cfg (loop_atr sn) * point si
       | SELL \<Rightarrow> price ord - dynamic_tp_points cfg (loop_atr sn) * point si)
    \<and> dynamic_tp_points cfg (loop_atr sn) =
      (case loop_atr sn of
         None \<Rightarrow> TP_POINTS cfg
       | Some atr \<Rightarrow>
           if atr * DYNAMIC_TP_ATR_MULTIPLIER < MIN_DYNAMIC_TP_POINTS then MIN_DYNAMIC_TP_POINTS
           else if atr * DYNAMIC_TP_ATR_MULTIPLIER > MAX_DYNAMIC_TP_POINTS then MAX_DYNAMIC_TP_POINTS
           else atr * DYNAMIC_TP_ATR_MULTIPLIER)
    \<and> price ord = (case order_type ord of BUY \<Rightarrow> ask (live sn) | SELL \<Rightarrow> bid (live sn))"
proof -
  have clamp: "dynamic_tp_points cfg (loop_atr sn) =
      (case loop_atr sn of
         None \<Rightarrow> TP_POINTS cfg
       | Some atr \<Rightarrow>
           if atr * DYNAMIC_TP_ATR_MULTIPLIER < MIN_DYNAMIC_TP_POINTS then MIN_DYNAMIC_TP_POINTS
           else if atr * DYNAMIC_TP_ATR_MULTIPLIER > MAX_DYNAMIC_TP_POINTS then MAX_DYNAMIC_TP_POINTS
           else atr * DYNAMIC_TP_ATR_MULTIPLIER)"
    by (simp add: dynamic_tp_points_def MIN_DYNAMIC_TP_POINTS_def MAX_DYNAMIC_TP_POINTS_def
          split: option.splits)
  from strategy_entry_signal[OF assms] obtain sg where
    sg: "order_type ord = signal_side sg"
      "price ord = (case signal_side sg of BUY \<Rightarrow> ask (live sn) | SELL \<Rightarrow> bid (live sn))"
      "order_tp ord = (case signal_side sg of
              BUY \<Rightarrow> ask (live sn) + dynamic_tp_points cfg (loop_atr sn) * point si
            | SELL \<Rightarrow> bid (live sn) - dynamic_tp_points cfg (loop_atr sn) * point si)"
    by blast
  have "order_tp ord =
      (case order_type ord of
         BUY \<Rightarrow> price ord + dynamic_tp_points cfg (loop_atr sn) * point si
       | SELL \<Rightarrow> price ord - dynamic_tp_points cfg (loop_atr sn) * point si)"
    using sg by (cases "signal_side sg") simp_all
  moreover have "price ord = (case order_type ord of BUY \<Rightarrow> ask (live sn) | SELL \<Rightarrow> bid (live sn))"
    using sg by simp
  ultimately show ?thesis using clamp by blast
qed

theorem C10_take_profit_distance_witness:
  "strategy_entry default_config xauusd 1000 idle_state (dip_snapshot 19) =
       Inr (Some \<lparr> order_type = BUY, price = 200120 / 100, order_volume = 2,
                   order_sl = 199970 / 100, order_tp = 200170 / 100,
                   comment = ''RSI+Stoch+MA_DipBuy_TrendGOLD'' \<rparr>)
   \<and> (200170 / 100 :: rat) = 200120 / 100 + MIN_DYNAMIC_TP_POINTS * point xauusd
   \<and> dynamic_tp_points default_config (loop_atr (dip_snapshot 19)) = MIN_DYNAMIC_TP_POINTS"
proof -
  have e: "strategy_entry default_config xauusd 1000 idle_state (dip_snapshot 19) =
       Inr (Some \<lparr> order_type = BUY, price = 200120 / 100, order_volume = 2,
                   order_sl = 199970 / 100, order_tp = 200170 / 100,
                   comment = ''RSI+Stoch+MA_DipBuy_TrendGOLD'' \<rparr>)"
    by (simp add: entry_defs dip_snapshot_def idle_state_def xauusd_def default_config_def Let_def)
  from C10_take_profit_distance[OF e] e show ?thesis
    by (simp add: dip_snapshot_def xauusd_def DYNAMIC_TP_ATR_MULTIPLIER_def MIN_DYNAMIC_TP_POINTS_def)
qed

section \<open>Reversal watch: results\<close>


lemma length_falling_bars [simp]: "length (falling_bars n c) = n"
  by (simp add: falling_bars_def)


lemma falling_bars_nonempty [simp]: "0 < n \<Longrightarrow> falling_bars n c \<noteq> []"
  by (simp add: falling_bars_def)









end
